theory Spec2Isabelle
  imports Main "HOL-Library.Word"
begin

unbundle bit_operations_syntax

section \<open>The ncurses bridge header\<close>

text \<open>
  \<^verbatim>\<open>Sources/NCursesBridge/ncurses_bridge.h\<close> wraps three macro or variadic entry points
  of ncurses and six attribute macros in plain \<^verbatim>\<open>static inline\<close> functions. The
  header includes \<^verbatim>\<open><ncurses.h>\<close>, which is not part of the repository: the
  library routines the bridge calls are parameters of the model (a record of functions
  over an arbitrary terminal state), and every theorem about the bridge's own code holds
  for every such library.
\<close>

subsection \<open>C types\<close>

text \<open>
  \<^verbatim>\<open>int\<close> is a 32-bit word read as two's complement (\<open>sint\<close>), \<^verbatim>\<open>chtype\<close>
  a 32-bit word read as unsigned (\<open>uint\<close>; \<^verbatim>\<open>typedef unsigned chtype\<close>).
  A \<^verbatim>\<open>WINDOW *\<close> and an \<^verbatim>\<open>int *\<close> are addresses, with 0 for the null pointer. A \<^verbatim>\<open>const char *\<close> argument is the list of bytes
  before the terminating NUL.
\<close>

type_synonym c_int = "32 word"
type_synonym chtype = "32 word"
type_synonym win = nat
type_synonym addr = nat

definition NULL :: nat where
  "NULL = 0"

text \<open>The conversion of \<^verbatim>\<open>return A_BOLD;\<close> in a function returning \<^verbatim>\<open>int\<close>: the same 32 bits.\<close>

definition chtype_to_int :: "chtype \<Rightarrow> c_int" where
  "chtype_to_int v = v"

subsection \<open>Constants of the ncurses header\<close>

text \<open>
  Modelled from the spec: the status codes \<^verbatim>\<open>OK\<close> and \<^verbatim>\<open>ERR\<close> of \<^verbatim>\<open><ncurses.h>\<close>,
  the "success/failure" of the spec's write contract; the header is not in the repository, the
  values are the ones it defines (\<^verbatim>\<open>#define ERR (-1)\<close>, \<^verbatim>\<open>#define OK (0)\<close>).
\<close>

definition OK :: c_int where
  "OK = 0"

definition ERR :: c_int where
  "ERR = - 1"

text \<open>
  Modelled from the spec: the attribute macros of \<^verbatim>\<open><ncurses.h>\<close>, which is not
  in the repository. The spec names the flags (bold, dim, reverse, standout, underline, normal)
  and gives no values; the values are the ones the ncurses header defines:
  \<^verbatim>\<open>#define NCURSES_ATTR_SHIFT 8\<close>,
  \<^verbatim>\<open>#define NCURSES_BITS(mask,shift) (NCURSES_CAST(chtype,(mask)) << ((shift) + NCURSES_ATTR_SHIFT))\<close>,
  \<^verbatim>\<open>#define A_NORMAL (1U - 1U)\<close>,
  \<^verbatim>\<open>#define A_ATTRIBUTES NCURSES_BITS(~(1U - 1U),0)\<close>,
  \<^verbatim>\<open>#define A_CHARTEXT (NCURSES_BITS(1U,0) - 1U)\<close>,
  \<^verbatim>\<open>#define A_STANDOUT NCURSES_BITS(1U,8)\<close>, \<^verbatim>\<open>A_UNDERLINE\<close> 9, \<^verbatim>\<open>A_REVERSE\<close> 10,
  \<^verbatim>\<open>A_BLINK\<close> 11, \<^verbatim>\<open>A_DIM\<close> 12, \<^verbatim>\<open>A_BOLD\<close> 13, \<^verbatim>\<open>A_ALTCHARSET\<close> 14,
  \<^verbatim>\<open>#define A_COLOR NCURSES_BITS(((1U) << 8) - 1U,0)\<close>.
\<close>

definition NCURSES_ATTR_SHIFT :: nat where
  "NCURSES_ATTR_SHIFT = 8"

definition NCURSES_BITS :: "chtype \<Rightarrow> nat \<Rightarrow> chtype" where
  "NCURSES_BITS m shift = push_bit (shift + NCURSES_ATTR_SHIFT) m"

definition A_NORMAL :: chtype where
  "A_NORMAL = 1 - 1"

definition A_ATTRIBUTES :: chtype where
  "A_ATTRIBUTES = NCURSES_BITS (NOT (1 - 1)) 0"

definition A_CHARTEXT :: chtype where
  "A_CHARTEXT = NCURSES_BITS 1 0 - 1"

definition A_STANDOUT :: chtype where
  "A_STANDOUT = NCURSES_BITS 1 8"

definition A_UNDERLINE :: chtype where
  "A_UNDERLINE = NCURSES_BITS 1 9"

definition A_REVERSE :: chtype where
  "A_REVERSE = NCURSES_BITS 1 10"

definition A_BLINK :: chtype where
  "A_BLINK = NCURSES_BITS 1 11"

definition A_DIM :: chtype where
  "A_DIM = NCURSES_BITS 1 12"

definition A_BOLD :: chtype where
  "A_BOLD = NCURSES_BITS 1 13"

definition A_ALTCHARSET :: chtype where
  "A_ALTCHARSET = NCURSES_BITS 1 14"

definition A_COLOR :: chtype where
  "A_COLOR = NCURSES_BITS (push_bit 8 1 - 1) 0"

subsection \<open>The attribute functions of the bridge\<close>

text \<open>
  \<^verbatim>\<open>static inline int bridge_a_bold(void) { return A_BOLD; }\<close> and its five siblings: no
  argument, no state, the macro converted to \<^verbatim>\<open>int\<close>.
\<close>

definition bridge_a_bold :: c_int where
  "bridge_a_bold = chtype_to_int A_BOLD"

definition bridge_a_normal :: c_int where
  "bridge_a_normal = chtype_to_int A_NORMAL"

definition bridge_a_dim :: c_int where
  "bridge_a_dim = chtype_to_int A_DIM"

definition bridge_a_reverse :: c_int where
  "bridge_a_reverse = chtype_to_int A_REVERSE"

definition bridge_a_standout :: c_int where
  "bridge_a_standout = chtype_to_int A_STANDOUT"

definition bridge_a_underline :: c_int where
  "bridge_a_underline = chtype_to_int A_UNDERLINE"

subsection \<open>The library routines the bridge calls\<close>

text \<open>
  The variadic arguments of a \<^verbatim>\<open>printw\<close>-family call, after the format string.
\<close>

datatype fmt_arg = ArgStr string | ArgInt c_int

text \<open>
  The four routines of \<^verbatim>\<open><ncurses.h>\<close> that the header names, over a terminal state
  \<open>'t\<close> that belongs to the library. \<^verbatim>\<open>getmaxy\<close> and \<^verbatim>\<open>getmaxx\<close> take a
  \<^verbatim>\<open>const WINDOW *\<close> and only read; the two writes return a status and the new terminal
  state. \<^verbatim>\<open>mvwprintw\<close> takes its format and then its variadic arguments.
\<close>

record 't curses =
  getmaxy :: "win \<Rightarrow> 't \<Rightarrow> c_int"
  getmaxx :: "win \<Rightarrow> 't \<Rightarrow> c_int"
  mvwprintw :: "win \<Rightarrow> c_int \<Rightarrow> c_int \<Rightarrow> string \<Rightarrow> fmt_arg list \<Rightarrow> 't \<Rightarrow> c_int \<times> 't"
  mvwaddch :: "win \<Rightarrow> c_int \<Rightarrow> c_int \<Rightarrow> chtype \<Rightarrow> 't \<Rightarrow> c_int \<times> 't"

text \<open>A call of one of the four routines, with its arguments.\<close>

datatype lib_call =
    Getmaxy win
  | Getmaxx win
  | Mvwprintw win c_int c_int string "fmt_arg list"
  | Mvwaddch win c_int c_int chtype

subsection \<open>Program state\<close>

text \<open>
  The \<^verbatim>\<open>int\<close> objects of the caller by address, the library's terminal state, and the
  sequence of library calls made so far (a history, written only by the four call
  functions below). The \<^verbatim>\<open>int\<close> objects and the terminal state are disjoint: an
  \<^verbatim>\<open>int *\<close> does not point into a \<^verbatim>\<open>WINDOW\<close>, and every non-null address holds an
  \<^verbatim>\<open>int\<close>.
\<close>

record 't state =
  mem :: "addr \<Rightarrow> c_int"
  screen :: 't
  calls :: "lib_call list"

definition call_getmaxy :: "'t curses \<Rightarrow> win \<Rightarrow> 't state \<Rightarrow> c_int \<times> 't state" where
  "call_getmaxy L win s =
     (getmaxy L win (screen s), s\<lparr>calls := calls s @ [Getmaxy win]\<rparr>)"

definition call_getmaxx :: "'t curses \<Rightarrow> win \<Rightarrow> 't state \<Rightarrow> c_int \<times> 't state" where
  "call_getmaxx L win s =
     (getmaxx L win (screen s), s\<lparr>calls := calls s @ [Getmaxx win]\<rparr>)"

definition call_mvwprintw ::
  "'t curses \<Rightarrow> win \<Rightarrow> c_int \<Rightarrow> c_int \<Rightarrow> string \<Rightarrow> fmt_arg list \<Rightarrow> 't state \<Rightarrow> c_int \<times> 't state" where
  "call_mvwprintw L win y x fmt args s =
     (case mvwprintw L win y x fmt args (screen s) of
        (r, t) \<Rightarrow> (r, s\<lparr>screen := t, calls := calls s @ [Mvwprintw win y x fmt args]\<rparr>))"

definition call_mvwaddch ::
  "'t curses \<Rightarrow> win \<Rightarrow> c_int \<Rightarrow> c_int \<Rightarrow> chtype \<Rightarrow> 't state \<Rightarrow> c_int \<times> 't state" where
  "call_mvwaddch L win y x ch s =
     (case mvwaddch L win y x ch (screen s) of
        (r, t) \<Rightarrow> (r, s\<lparr>screen := t, calls := calls s @ [Mvwaddch win y x ch]\<rparr>))"

text \<open>
  \<^verbatim>\<open>*p = v\<close> for an \<^verbatim>\<open>int *p\<close>: undefined behaviour (\<open>None\<close>) through the null pointer.
\<close>

definition store_int :: "addr \<Rightarrow> c_int \<Rightarrow> 't state \<Rightarrow> 't state option" where
  "store_int p v s = (if p = NULL then None else Some (s\<lparr>mem := (mem s)(p := v)\<rparr>))"

subsection \<open>The three wrapper functions of the bridge\<close>

text \<open>
  \<^verbatim>\<open>
  static inline void bridge_getmaxyx(WINDOW *win, int *y, int *x) {
      *y = getmaxy(win);
      *x = getmaxx(win);
  }
  \<close>
  Two statements in this order; \<open>None\<close> when a store goes through the null pointer.
\<close>

definition bridge_getmaxyx :: "'t curses \<Rightarrow> win \<Rightarrow> addr \<Rightarrow> addr \<Rightarrow> 't state \<Rightarrow> 't state option" where
  "bridge_getmaxyx L win y x s =
     (case call_getmaxy L win s of
        (h, s1) \<Rightarrow>
          (case store_int y h s1 of
             None \<Rightarrow> None
           | Some s2 \<Rightarrow>
               (case call_getmaxx L win s2 of
                  (w, s3) \<Rightarrow> store_int x w s3)))"

text \<open>
  \<^verbatim>\<open>
  static inline int bridge_mvwprintw(WINDOW *win, int y, int x, const char *str) {
      return mvwprintw(win, y, x, "%s", str);
  }
  \<close>
\<close>

definition bridge_mvwprintw ::
  "'t curses \<Rightarrow> win \<Rightarrow> c_int \<Rightarrow> c_int \<Rightarrow> string \<Rightarrow> 't state \<Rightarrow> c_int \<times> 't state" where
  "bridge_mvwprintw L win y x str s = call_mvwprintw L win y x ''%s'' [ArgStr str] s"

text \<open>
  \<^verbatim>\<open>
  static inline int bridge_mvwaddch(WINDOW *win, int y, int x, chtype ch) {
      return mvwaddch(win, y, x, ch);
  }
  \<close>
\<close>

definition bridge_mvwaddch ::
  "'t curses \<Rightarrow> win \<Rightarrow> c_int \<Rightarrow> c_int \<Rightarrow> chtype \<Rightarrow> 't state \<Rightarrow> c_int \<times> 't state" where
  "bridge_mvwaddch L win y x ch s = call_mvwaddch L win y x ch s"

subsection \<open>The header as an interface\<close>

text \<open>
  The nine functions the header defines, each with its arguments: all a foreign caller
  can invoke through the bridge. \<open>bridge_exec\<close> runs one of them: the value returned
  (\<open>None\<close> for \<^verbatim>\<open>void\<close>) and the new state, or \<open>None\<close> for undefined behaviour.
\<close>

datatype bridge_call =
    Bridge_getmaxyx win addr addr
  | Bridge_mvwprintw win c_int c_int string
  | Bridge_mvwaddch win c_int c_int chtype
  | Bridge_a_bold
  | Bridge_a_normal
  | Bridge_a_dim
  | Bridge_a_reverse
  | Bridge_a_standout
  | Bridge_a_underline

fun bridge_exec :: "'t curses \<Rightarrow> bridge_call \<Rightarrow> 't state \<Rightarrow> (c_int option \<times> 't state) option" where
  "bridge_exec L (Bridge_getmaxyx win y x) s =
     (case bridge_getmaxyx L win y x s of None \<Rightarrow> None | Some s' \<Rightarrow> Some (None, s'))"
| "bridge_exec L (Bridge_mvwprintw win y x str) s =
     (case bridge_mvwprintw L win y x str s of (r, s') \<Rightarrow> Some (Some r, s'))"
| "bridge_exec L (Bridge_mvwaddch win y x ch) s =
     (case bridge_mvwaddch L win y x ch s of (r, s') \<Rightarrow> Some (Some r, s'))"
| "bridge_exec L Bridge_a_bold s = Some (Some bridge_a_bold, s)"
| "bridge_exec L Bridge_a_normal s = Some (Some bridge_a_normal, s)"
| "bridge_exec L Bridge_a_dim s = Some (Some bridge_a_dim, s)"
| "bridge_exec L Bridge_a_reverse s = Some (Some bridge_a_reverse, s)"
| "bridge_exec L Bridge_a_standout s = Some (Some bridge_a_standout, s)"
| "bridge_exec L Bridge_a_underline s = Some (Some bridge_a_underline, s)"

text \<open>The library calls that one bridge call adds to the history.\<close>

definition emitted :: "'t curses \<Rightarrow> bridge_call \<Rightarrow> 't state \<Rightarrow> lib_call list" where
  "emitted L c s =
     (case bridge_exec L c s of
        None \<Rightarrow> []
      | Some (r, s') \<Rightarrow> drop (length (calls s)) (calls s'))"

section \<open>A reference model of the library\<close>

text \<open>
  What the library routines themselves do is outside the repository. Claims about it (what
  a format directive does, which cell a write changes) are settled on the reference library
  \<open>ncurses\<close> below, a record of the four routines over a terminal of windows, and on
  \<open>ncurses_io\<close>, the same routines over a console that also has the current attributes
  of the windows and the pending keys.
\<close>

text \<open>
  Modelled from the spec: the formatting stage of the \<^verbatim>\<open>printw\<close> family, which is not
  in the repository. The spec calls these "variadic formatting calls" whose string-write
  replacement takes "pre-formatted text". The fragment of the C format language modelled:
  an ordinary byte is copied, \<^verbatim>\<open>%%\<close> writes one \<^verbatim>\<open>%\<close>, \<^verbatim>\<open>%s\<close> writes the bytes of the next
  argument, which must be a string. Any other directive, a lone \<^verbatim>\<open>%\<close> at the end and a
  missing or ill-typed argument are outside the fragment (\<open>None\<close>).
\<close>

fun format_printf :: "string \<Rightarrow> fmt_arg list \<Rightarrow> string option" where
  "format_printf [] args = Some []"
| "format_printf [c] args = (if c = CHR ''%'' then None else Some [c])"
| "format_printf (c # d # fmt) args =
     (if c \<noteq> CHR ''%'' then map_option ((#) c) (format_printf (d # fmt) args)
      else if d = CHR ''%'' then map_option ((#) (CHR ''%'')) (format_printf fmt args)
      else if d = CHR ''s'' then
        (case args of
           ArgStr v # args' \<Rightarrow> map_option ((@) v) (format_printf fmt args')
         | _ \<Rightarrow> None)
      else None)"

text \<open>
  Modelled from the spec: a window of the terminal control surface, which is not in the
  repository: its size ("query window size"), its cursor ("move cursor") and its grid of cells,
  each cell a \<^verbatim>\<open>chtype\<close> holding a character and attribute bits (the spec's Cell).
\<close>

record window =
  w_lines :: nat
  w_cols :: nat
  w_cury :: nat
  w_curx :: nat
  w_cells :: "nat \<times> nat \<Rightarrow> chtype"

text \<open>The windows by address; \<open>None\<close> at the null pointer and at any address without a window.\<close>

type_synonym terminal = "win \<Rightarrow> window option"

text \<open>
  Modelled from the spec: \<^verbatim>\<open>getmaxy\<close> and \<^verbatim>\<open>getmaxx\<close> of \<^verbatim>\<open><ncurses.h>\<close>, not in the repository;
  the spec's \<^verbatim>\<open>queryDimensions() -> (width, height)\<close>: the number of lines and of columns
  of the window, \<^verbatim>\<open>ERR\<close> without a window.
\<close>

definition nc_getmaxy :: "win \<Rightarrow> terminal \<Rightarrow> c_int" where
  "nc_getmaxy win t = (case t win of None \<Rightarrow> ERR | Some W \<Rightarrow> of_nat (w_lines W))"

definition nc_getmaxx :: "win \<Rightarrow> terminal \<Rightarrow> c_int" where
  "nc_getmaxx win t = (case t win of None \<Rightarrow> ERR | Some W \<Rightarrow> of_nat (w_cols W))"

text \<open>
  Modelled from the spec: the cursor move of the library, not in the repository; the spec's
  \<^verbatim>\<open>moveCursor(row, col)\<close>: the cursor goes to a position inside the window, a position
  outside fails and changes nothing.
\<close>

definition nc_wmove :: "win \<Rightarrow> c_int \<Rightarrow> c_int \<Rightarrow> terminal \<Rightarrow> c_int \<times> terminal" where
  "nc_wmove win y x t =
     (case t win of
        None \<Rightarrow> (ERR, t)
      | Some W \<Rightarrow>
          if 0 \<le> sint y \<and> sint y < int (w_lines W) \<and> 0 \<le> sint x \<and> sint x < int (w_cols W)
          then (OK, t(win \<mapsto> W\<lparr>w_cury := nat (sint y), w_curx := nat (sint x)\<rparr>))
          else (ERR, t))"

text \<open>The blank that fills a fresh or cleared cell: a space with no attribute.\<close>

definition blank :: chtype where
  "blank = 32"

text \<open>
  Modelled from the spec: the character write of the library at the cursor, not in the repository;
  the spec's \<^verbatim>\<open>writeCellAt(row, col, character, attributes) -> success/failure\<close>: the cell
  under the cursor becomes \<open>ch\<close>, character and attribute bits together, and the cursor
  advances, to the start of the next line at the right margin. In the last cell of the
  window the character is written and \<^verbatim>\<open>ERR\<close> is returned, since the cursor cannot
  advance (no scrolling). This is the write of one cell as it stands; the library's
  treatment of control characters comes with \<open>nc_waddch_nosync\<close> below.
\<close>

definition nc_waddch :: "win \<Rightarrow> chtype \<Rightarrow> terminal \<Rightarrow> c_int \<times> terminal" where
  "nc_waddch win ch t =
     (case t win of
        None \<Rightarrow> (ERR, t)
      | Some W \<Rightarrow>
          (let W' = W\<lparr>w_cells := (w_cells W)((w_cury W, w_curx W) := ch)\<rparr> in
           if w_curx W + 1 < w_cols W
           then (OK, t(win \<mapsto> W'\<lparr>w_curx := w_curx W + 1\<rparr>))
           else if w_cury W + 1 < w_lines W
           then (OK, t(win \<mapsto> W'\<lparr>w_cury := w_cury W + 1, w_curx := 0\<rparr>))
           else (ERR, t(win \<mapsto> W'))))"

text \<open>
  Modelled from the spec: the plain string write of the library, not in the repository; the
  spec's "string-write contract taking pre-formatted text": one cell write per byte,
  with no attribute bits, stopping at the first failure. The string write stays at the
  level of this contract: control bytes inside a string are written as they stand.
\<close>

fun nc_waddstr :: "win \<Rightarrow> string \<Rightarrow> terminal \<Rightarrow> c_int \<times> terminal" where
  "nc_waddstr win [] t = (if t win = None then ERR else OK, t)"
| "nc_waddstr win (c # cs) t =
     (case nc_waddch win (of_char c) t of
        (r, t') \<Rightarrow> if r = ERR then (ERR, t') else nc_waddstr win cs t')"

text \<open>
  Modelled from the spec: how the library renders a character in a window whose current
  attributes are \<open>a\<close> (the attributes that the spec's \<^verbatim>\<open>setAttribute(flag)\<close> and
  \<^verbatim>\<open>clearAttribute(flag)\<close> switch), not in the repository: the attributes of the window
  are added to those of the character, except that a colour in the character takes
  precedence over a colour of the window. The window background is the default blank.
\<close>

definition render_char :: "chtype \<Rightarrow> chtype \<Rightarrow> chtype" where
  "render_char a ch = ch OR (if ch AND A_COLOR = 0 then a else a AND NOT A_COLOR)"

text \<open>The cells of line \<open>r\<close> in the columns from \<open>lo\<close> up to, not including, \<open>hi\<close> set to \<open>v\<close>.\<close>

definition fill_cells :: "nat \<Rightarrow> nat \<Rightarrow> nat \<Rightarrow> chtype \<Rightarrow> window \<Rightarrow> window" where
  "fill_cells r lo hi v W =
     W\<lparr>w_cells := (\<lambda>p. if fst p = r \<and> lo \<le> snd p \<and> snd p < hi then v else w_cells W p)\<rparr>"

text \<open>
  Modelled from the spec: clearing from the cursor to the end of the line, as the library
  does on a newline; not in the repository.
\<close>

definition nc_wclrtoeol :: "window \<Rightarrow> window" where
  "nc_wclrtoeol W = fill_cells (w_cury W) (w_curx W) (w_cols W) blank W"

text \<open>
  Modelled from the spec: the printable form of a control character, not in the
  repository: \<^verbatim>\<open>^X\<close> for the codes below 32, \<^verbatim>\<open>^?\<close> for 127.
\<close>

definition unctrl :: "nat \<Rightarrow> chtype list" where
  "unctrl c = (if c = 127 then [94, 63] else [94, of_nat (c + 64)])"

definition TABSIZE :: nat where
  "TABSIZE = 8"

text \<open>Cell writes one after the other with the window attributes \<open>a\<close>, up to the first failure.\<close>

fun nc_waddchs :: "chtype \<Rightarrow> win \<Rightarrow> chtype list \<Rightarrow> terminal \<Rightarrow> c_int \<times> terminal" where
  "nc_waddchs a win [] t = (OK, t)"
| "nc_waddchs a win (ch # chs) t =
     (case nc_waddch win (render_char a ch) t of
        (r, t') \<Rightarrow> if r = ERR then (ERR, t') else nc_waddchs a win chs t')"

text \<open>
  Modelled from the spec: the character write of the library with its treatment of
  control characters, not in the repository. The spec's
  \<^verbatim>\<open>writeCellAt(row, col, character, attributes)\<close> covers a character that is written; what
  the library does with a control character follows its manual (\<^verbatim>\<open>curs_addch\<close>), for a
  window that does not scroll:
  \<^item> a printable character (32 to 126), and any character with \<^verbatim>\<open>A_ALTCHARSET\<close>, is
    written to the cell under the cursor, rendered with the window attributes \<open>a\<close>; the
    codes from 128 on depend on the locale and are written in the same way;
  \<^item> a tab writes blanks, with the attributes of \<open>ch\<close>, up to the next multiple of
    \<^verbatim>\<open>TABSIZE\<close>; when that is beyond the right margin, the rest of the line is
    cleared and the cursor goes to the start of the next line, or, on the last line, the
    blanks stop at the margin;
  \<^item> a newline clears to the end of the line and moves the cursor to the start of the
    next line; on the last line it fails after clearing;
  \<^item> a carriage return moves the cursor to the start of the line, a backspace one column
    to the left unless it is at the start;
  \<^item> any other control character is written in its printable form, two cells with
    the attributes of \<open>ch\<close>.
\<close>

definition nc_waddch_nosync :: "chtype \<Rightarrow> win \<Rightarrow> chtype \<Rightarrow> terminal \<Rightarrow> c_int \<times> terminal" where
  "nc_waddch_nosync a win ch t =
     (let c = unat (ch AND A_CHARTEXT) in
      if ch AND A_ALTCHARSET \<noteq> 0 \<or> (32 \<le> c \<and> c \<noteq> 127)
      then nc_waddch win (render_char a ch) t
      else
        (case t win of
           None \<Rightarrow> (ERR, t)
         | Some W \<Rightarrow>
             if c = 9 then
               (let x' = w_curx W + (TABSIZE - w_curx W mod TABSIZE);
                    b = render_char a (blank OR (ch AND A_ATTRIBUTES)) in
                if x' < w_cols W
                then (OK, t(win \<mapsto> (fill_cells (w_cury W) (w_curx W) x' b W)\<lparr>w_curx := x'\<rparr>))
                else if w_cury W + 1 < w_lines W
                then (OK, t(win \<mapsto> (nc_wclrtoeol W)\<lparr>w_cury := w_cury W + 1, w_curx := 0\<rparr>))
                else (OK, t(win \<mapsto> (fill_cells (w_cury W) (w_curx W) (w_cols W) b W)
                                     \<lparr>w_curx := w_cols W - 1\<rparr>)))
             else if c = 10 then
               (if w_cury W + 1 < w_lines W
                then (OK, t(win \<mapsto> (nc_wclrtoeol W)\<lparr>w_cury := w_cury W + 1, w_curx := 0\<rparr>))
                else (ERR, t(win \<mapsto> nc_wclrtoeol W)))
             else if c = 13 then (OK, t(win \<mapsto> W\<lparr>w_curx := 0\<rparr>))
             else if c = 8 then (OK, t(win \<mapsto> W\<lparr>w_curx := w_curx W - 1\<rparr>))
             else nc_waddchs a win (map (\<lambda>u. u OR (ch AND A_ATTRIBUTES)) (unctrl c)) t))"

text \<open>
  Modelled from the spec: \<^verbatim>\<open>mvwaddch\<close> of \<^verbatim>\<open><ncurses.h>\<close>, not in the repository; "write
  character at position": the move, then the character write unless the move failed.
  \<open>nc_mvwaddch_attr a\<close> is the routine on a window whose current attributes are \<open>a\<close>.
\<close>

definition nc_mvwaddch_attr ::
  "chtype \<Rightarrow> win \<Rightarrow> c_int \<Rightarrow> c_int \<Rightarrow> chtype \<Rightarrow> terminal \<Rightarrow> c_int \<times> terminal" where
  "nc_mvwaddch_attr a win y x ch t =
     (case nc_wmove win y x t of
        (r, t') \<Rightarrow> if r = ERR then (ERR, t') else nc_waddch_nosync a win ch t')"

text \<open>
  Modelled from the spec: \<^verbatim>\<open>mvwaddch\<close> on the windows of a \<open>terminal\<close>, not in the
  repository: the routine above with no attribute switched on in the window.
\<close>

definition nc_mvwaddch :: "win \<Rightarrow> c_int \<Rightarrow> c_int \<Rightarrow> chtype \<Rightarrow> terminal \<Rightarrow> c_int \<times> terminal" where
  "nc_mvwaddch win y x ch t = nc_mvwaddch_attr A_NORMAL win y x ch t"

text \<open>
  Modelled from the spec: the plain string write at a position, not in the repository: the move,
  then the string write unless the move failed.
\<close>

definition nc_mvwaddstr :: "win \<Rightarrow> c_int \<Rightarrow> c_int \<Rightarrow> string \<Rightarrow> terminal \<Rightarrow> c_int \<times> terminal" where
  "nc_mvwaddstr win y x str t =
     (case nc_wmove win y x t of
        (r, t') \<Rightarrow> if r = ERR then (ERR, t') else nc_waddstr win str t')"

text \<open>
  Modelled from the spec: \<^verbatim>\<open>mvwprintw\<close> of the library, not in the repository; a "variadic
  formatting call": the move, then the format is expanded with the arguments and the
  result is written as a plain string. A format outside the modelled fragment writes
  nothing and fails.
\<close>

definition nc_mvwprintw ::
  "win \<Rightarrow> c_int \<Rightarrow> c_int \<Rightarrow> string \<Rightarrow> fmt_arg list \<Rightarrow> terminal \<Rightarrow> c_int \<times> terminal" where
  "nc_mvwprintw win y x fmt args t =
     (case nc_wmove win y x t of
        (r, t') \<Rightarrow>
          if r = ERR then (ERR, t')
          else (case format_printf fmt args of
                  None \<Rightarrow> (ERR, t')
                | Some buf \<Rightarrow> nc_waddstr win buf t'))"

definition ncurses :: "terminal curses" where
  "ncurses = \<lparr>getmaxy = nc_getmaxy, getmaxx = nc_getmaxx,
               mvwprintw = nc_mvwprintw, mvwaddch = nc_mvwaddch\<rparr>"

text \<open>
  A terminal for the concrete instances: one window of 24 lines and 80 columns at address
  1, blank, cursor at the origin; a caller state over it with zeroed memory and no call
  made yet.
\<close>

definition window0 :: window where
  "window0 = \<lparr>w_lines = 24, w_cols = 80, w_cury = 0, w_curx = 0, w_cells = (\<lambda>p. blank)\<rparr>"

definition terminal0 :: terminal where
  "terminal0 = (\<lambda>w. None)(1 \<mapsto> window0)"

definition state0 :: "terminal state" where
  "state0 = \<lparr>mem = (\<lambda>a. 0), screen = terminal0, calls = []\<rparr>"

text \<open>The cell of a window after a run, \<open>None\<close> without the window.\<close>

definition cell_at :: "terminal \<Rightarrow> win \<Rightarrow> nat \<Rightarrow> nat \<Rightarrow> chtype option" where
  "cell_at t win y x = map_option (\<lambda>W. w_cells W (y, x)) (t win)"

section \<open>The attribute flags of the spec\<close>






section \<open>The terminal control surface of the spec\<close>

text \<open>
  The spec lists what the terminal control surface provides: "query window size, move
  cursor, write character at position, set/clear attributes, read one raw key". The last
  two need state that a \<open>terminal\<close> does not have: the current attributes of each window
  and the keys waiting to be read. A \<open>console\<close> adds both.
\<close>

text \<open>
  Modelled from the spec: the state behind \<^verbatim>\<open>setAttribute(flag)\<close>,
  \<^verbatim>\<open>clearAttribute(flag)\<close> and \<^verbatim>\<open>readKey(timeoutMs) -> rawCode or NoInput\<close>, which is
  not in the repository: the windows, the current attributes of each window, and the raw
  key codes that have arrived and are not read yet.
\<close>

record console =
  windows :: terminal
  attrs :: "win \<Rightarrow> chtype"
  pending :: "c_int list"

text \<open>
  Modelled from the spec: the four routines the bridge calls, on a console; not in the
  repository. They act on the windows as on a \<open>terminal\<close>; what is written is rendered
  with the current attributes of the window.
\<close>

definition io_getmaxy :: "win \<Rightarrow> console \<Rightarrow> c_int" where
  "io_getmaxy win k = nc_getmaxy win (windows k)"

definition io_getmaxx :: "win \<Rightarrow> console \<Rightarrow> c_int" where
  "io_getmaxx win k = nc_getmaxx win (windows k)"

definition io_mvwaddch :: "win \<Rightarrow> c_int \<Rightarrow> c_int \<Rightarrow> chtype \<Rightarrow> console \<Rightarrow> c_int \<times> console" where
  "io_mvwaddch win y x ch k =
     (case nc_mvwaddch_attr (attrs k win) win y x ch (windows k) of
        (r, t) \<Rightarrow> (r, k\<lparr>windows := t\<rparr>))"

definition io_mvwprintw ::
  "win \<Rightarrow> c_int \<Rightarrow> c_int \<Rightarrow> string \<Rightarrow> fmt_arg list \<Rightarrow> console \<Rightarrow> c_int \<times> console" where
  "io_mvwprintw win y x fmt args k =
     (case nc_wmove win y x (windows k) of
        (r, t) \<Rightarrow>
          if r = ERR then (ERR, k\<lparr>windows := t\<rparr>)
          else (case format_printf fmt args of
                  None \<Rightarrow> (ERR, k\<lparr>windows := t\<rparr>)
                | Some buf \<Rightarrow>
                    (case nc_waddchs (attrs k win) win (map of_char buf) t of
                       (r', t') \<Rightarrow> (r', k\<lparr>windows := t'\<rparr>))))"

definition ncurses_io :: "console curses" where
  "ncurses_io = \<lparr>getmaxy = io_getmaxy, getmaxx = io_getmaxx,
                  mvwprintw = io_mvwprintw, mvwaddch = io_mvwaddch\<rparr>"

text \<open>
  Modelled from the spec: \<^verbatim>\<open>setAttribute(flag)\<close> and \<^verbatim>\<open>clearAttribute(flag)\<close>, the
  routines \<^verbatim>\<open>wattron\<close> and \<^verbatim>\<open>wattroff\<close> of the library, not in the repository: the
  attributes given are switched on, or off, in the current attributes of the window; a
  colour replaces the colour that was there.
\<close>

definition io_wattron :: "win \<Rightarrow> c_int \<Rightarrow> console \<Rightarrow> c_int \<times> console" where
  "io_wattron win a k =
     (if windows k win = None then (ERR, k)
      else (OK, k\<lparr>attrs := (attrs k)
              (win := (if a AND A_COLOR = 0 then attrs k win else attrs k win AND NOT A_COLOR)
                       OR a)\<rparr>))"

definition io_wattroff :: "win \<Rightarrow> c_int \<Rightarrow> console \<Rightarrow> c_int \<times> console" where
  "io_wattroff win a k =
     (if windows k win = None then (ERR, k)
      else (OK, k\<lparr>attrs := (attrs k)
              (win := attrs k win AND NOT (if a AND A_COLOR = 0 then a else a OR A_COLOR))\<rparr>))"

text \<open>
  Modelled from the spec: \<^verbatim>\<open>readKey(timeoutMs) -> rawCode or NoInput\<close>, the routine
  \<^verbatim>\<open>wgetch\<close> of the library once the timeout has passed, not in the repository: the
  oldest pending key is taken and returned, \<^verbatim>\<open>ERR\<close> when none is pending.
\<close>

definition io_wgetch :: "win \<Rightarrow> console \<Rightarrow> c_int \<times> console" where
  "io_wgetch win k =
     (case pending k of
        [] \<Rightarrow> (ERR, k)
      | key # keys \<Rightarrow> (key, k\<lparr>pending := keys\<rparr>))"

text \<open>
  A console for the concrete instances: the 24 by 80 window at address 1 with no
  attribute switched on, and the key \<^verbatim>\<open>a\<close> (97) pending.
\<close>

definition console0 :: console where
  "console0 = \<lparr>windows = terminal0, attrs = (\<lambda>w. A_NORMAL), pending = [97]\<rparr>"

definition iostate0 :: "console state" where
  "iostate0 = \<lparr>mem = (\<lambda>a. 0), screen = console0, calls = []\<rparr>"

section \<open>Auxiliary facts\<close>

lemmas attr_defs = A_NORMAL_def A_ATTRIBUTES_def A_CHARTEXT_def A_STANDOUT_def A_UNDERLINE_def
  A_REVERSE_def A_BLINK_def A_DIM_def A_BOLD_def NCURSES_BITS_def NCURSES_ATTR_SHIFT_def

lemmas attr_defs_more = A_ALTCHARSET_def A_COLOR_def NCURSES_BITS_def NCURSES_ATTR_SHIFT_def

lemmas bridge_a_defs = bridge_a_bold_def bridge_a_normal_def bridge_a_dim_def
  bridge_a_reverse_def bridge_a_standout_def bridge_a_underline_def chtype_to_int_def

lemmas nc_defs = ncurses_def nc_getmaxy_def nc_getmaxx_def nc_wmove_def nc_waddch_def
  nc_mvwaddch_def nc_mvwaddstr_def nc_mvwprintw_def

lemmas call_defs = call_getmaxy_def call_getmaxx_def call_mvwprintw_def call_mvwaddch_def

lemmas st0_defs = state0_def terminal0_def window0_def blank_def

subsection \<open>The header constants\<close>

lemma attr_values:
  "A_NORMAL = 0" "A_STANDOUT = 0x10000" "A_UNDERLINE = 0x20000" "A_REVERSE = 0x40000"
  "A_BLINK = 0x80000" "A_DIM = 0x100000" "A_BOLD = 0x200000"
  by (simp_all add: attr_defs)

lemma A_CHARTEXT_mask: "A_CHARTEXT = mask 8"
  by (simp add: attr_defs mask_eq_decr_exp)






subsection \<open>The call functions and the wrappers, unfolded\<close>

lemma call_mvwaddch_eq:
  "call_mvwaddch L win y x ch s =
     (fst (mvwaddch L win y x ch (screen s)),
      s\<lparr>screen := snd (mvwaddch L win y x ch (screen s)),
        calls := calls s @ [Mvwaddch win y x ch]\<rparr>)"
  by (simp add: call_mvwaddch_def split: prod.split)

lemma call_mvwprintw_eq:
  "call_mvwprintw L win y x fmt args s =
     (fst (mvwprintw L win y x fmt args (screen s)),
      s\<lparr>screen := snd (mvwprintw L win y x fmt args (screen s)),
        calls := calls s @ [Mvwprintw win y x fmt args]\<rparr>)"
  by (simp add: call_mvwprintw_def split: prod.split)

lemma bridge_getmaxyx_eq:
  "bridge_getmaxyx L win y x s =
     (if y = NULL \<or> x = NULL then None
      else Some (s\<lparr>mem := (mem s)(y := getmaxy L win (screen s), x := getmaxx L win (screen s)),
                  calls := calls s @ [Getmaxy win, Getmaxx win]\<rparr>))"
  by (simp add: bridge_getmaxyx_def call_getmaxy_def call_getmaxx_def store_int_def)

lemma emitted_getmaxyx:
  "y \<noteq> NULL \<Longrightarrow> x \<noteq> NULL \<Longrightarrow>
   emitted L (Bridge_getmaxyx win y x) s = [Getmaxy win, Getmaxx win]"
  by (simp add: emitted_def bridge_getmaxyx_eq)


lemma emitted_mvwprintw:
  "emitted L (Bridge_mvwprintw win y x str) s = [Mvwprintw win y x ''%s'' [ArgStr str]]"
  by (simp add: emitted_def bridge_mvwprintw_def call_mvwprintw_eq)

subsection \<open>The reference library\<close>

lemma nc_mvwprintw_s: "nc_mvwprintw win y x ''%s'' [ArgStr str] t = nc_mvwaddstr win y x str t"
  by (simp add: nc_mvwprintw_def nc_mvwaddstr_def split: prod.split)

lemma nc_waddch_Some:
  assumes "t win = Some W"
  shows "\<exists>W'. snd (nc_waddch win ch t) win = Some W'
    \<and> w_lines W' = w_lines W \<and> w_cols W' = w_cols W
    \<and> w_cells W' = (w_cells W)((w_cury W, w_curx W) := ch)
    \<and> (w_curx W + 1 < w_cols W \<longrightarrow>
          fst (nc_waddch win ch t) = OK \<and> w_cury W' = w_cury W \<and> w_curx W' = w_curx W + 1)"
  using assms by (simp add: nc_waddch_def Let_def)

lemma nc_waddstr_Cons:
  "nc_waddstr win (c # cs) t =
     (if fst (nc_waddch win (of_char c) t) = ERR then (ERR, snd (nc_waddch win (of_char c) t))
      else nc_waddstr win cs (snd (nc_waddch win (of_char c) t)))"
  by (simp split: prod.split)

text \<open>A string that fits on the line leaves the cells to the left of the cursor alone.\<close>

lemma nc_waddstr_frame:
  assumes "t win = Some W" and "w_curx W + length str \<le> w_cols W" and "c < w_curx W"
  shows "cell_at (snd (nc_waddstr win str t)) win (w_cury W) c = Some (w_cells W (w_cury W, c))"
  using assms
proof (induction str arbitrary: t W)
  case Nil
  then show ?case by (simp add: cell_at_def)
next
  case (Cons a str)
  obtain W' where W': "snd (nc_waddch win (of_char a) t) win = Some W'"
      "w_lines W' = w_lines W" "w_cols W' = w_cols W"
      "w_cells W' = (w_cells W)((w_cury W, w_curx W) := of_char a)"
      "w_curx W + 1 < w_cols W \<longrightarrow>
          fst (nc_waddch win (of_char a) t) = OK \<and> w_cury W' = w_cury W \<and> w_curx W' = w_curx W + 1"
    using nc_waddch_Some [of t win W "of_char a"] Cons.prems(1) by blast
  show ?case
  proof (cases "fst (nc_waddch win (of_char a) t) = ERR")
    case True
    with W' Cons.prems show ?thesis
      by (simp add: cell_at_def nc_waddstr_Cons del: nc_waddstr.simps(2))
  next
    case False
    show ?thesis
    proof (cases str)
      case Nil
      with False W' Cons.prems show ?thesis
        by (simp add: cell_at_def nc_waddstr_Cons del: nc_waddstr.simps(2))
    next
      case (Cons b bs)
      with Cons.prems have lt: "w_curx W + 1 < w_cols W" by simp
      with W' have cur: "w_cury W' = w_cury W" "w_curx W' = w_curx W + 1" by simp_all
      have "cell_at (snd (nc_waddstr win str (snd (nc_waddch win (of_char a) t)))) win (w_cury W') c
          = Some (w_cells W' (w_cury W', c))"
        using Cons.IH [of "snd (nc_waddch win (of_char a) t)" W'] W'(1) Cons.prems W'(3) cur
        by simp
      with False cur W'(4) Cons.prems(3) show ?thesis
        by (simp add: nc_waddstr_Cons del: nc_waddstr.simps(2))
    qed
  qed
qed

text \<open>A string that fits on the line ends up, byte for byte, in the cells from the cursor on.\<close>

lemma nc_waddstr_cells:
  assumes "t win = Some W" and "w_curx W + length str \<le> w_cols W" and "i < length str"
  shows "cell_at (snd (nc_waddstr win str t)) win (w_cury W) (w_curx W + i)
    = Some (of_char (str ! i))"
  using assms
proof (induction str arbitrary: t W i)
  case Nil
  then show ?case by simp
next
  case (Cons a str)
  obtain W' where W': "snd (nc_waddch win (of_char a) t) win = Some W'"
      "w_lines W' = w_lines W" "w_cols W' = w_cols W"
      "w_cells W' = (w_cells W)((w_cury W, w_curx W) := of_char a)"
      "w_curx W + 1 < w_cols W \<longrightarrow>
          fst (nc_waddch win (of_char a) t) = OK \<and> w_cury W' = w_cury W \<and> w_curx W' = w_curx W + 1"
    using nc_waddch_Some [of t win W "of_char a"] Cons.prems(1) by blast
  show ?case
  proof (cases str)
    case Nil
    with Cons.prems have "i = 0" by simp
    with Nil W' show ?thesis
      by (simp add: cell_at_def nc_waddstr_Cons del: nc_waddstr.simps(2))
  next
    case (Cons b bs)
    with Cons.prems have lt: "w_curx W + 1 < w_cols W" by simp
    with W' have cur: "w_cury W' = w_cury W" "w_curx W' = w_curx W + 1"
      and ok: "fst (nc_waddch win (of_char a) t) = OK" by simp_all
    have step: "nc_waddstr win (a # str) t = nc_waddstr win str (snd (nc_waddch win (of_char a) t))"
      using ok by (simp add: OK_def ERR_def nc_waddstr_Cons del: nc_waddstr.simps(2))
    have len: "w_curx W' + length str \<le> w_cols W'"
      using Cons.prems(2) cur W'(3) by simp
    show ?thesis
    proof (cases i)
      case 0
      have "cell_at (snd (nc_waddstr win str (snd (nc_waddch win (of_char a) t)))) win
              (w_cury W') (w_curx W)
          = Some (w_cells W' (w_cury W', w_curx W))"
        using nc_waddstr_frame [of "snd (nc_waddch win (of_char a) t)" win W' str "w_curx W"]
          W'(1) len cur
        by simp
      with 0 step cur W'(4) show ?thesis by simp
    next
      case (Suc j)
      with Cons.prems have j: "j < length str" by simp
      have "cell_at (snd (nc_waddstr win str (snd (nc_waddch win (of_char a) t)))) win
              (w_cury W') (w_curx W' + j)
          = Some (of_char (str ! j))"
        using Cons.IH [of "snd (nc_waddch win (of_char a) t)" W' j] W'(1) len j by simp
      with Suc step cur show ?thesis by simp
    qed
  qed
qed

lemma nc_mvwaddstr_cells:
  assumes "t win = Some W" and "0 \<le> sint y" and "sint y < int (w_lines W)" and "0 \<le> sint x"
    and "nat (sint x) + length str \<le> w_cols W" and "i < length str"
  shows "cell_at (snd (nc_mvwaddstr win y x str t)) win (nat (sint y)) (nat (sint x) + i)
    = Some (of_char (str ! i))"
proof -
  from assms have x: "sint x < int (w_cols W)" by linarith
  let ?W = "W\<lparr>w_cury := nat (sint y), w_curx := nat (sint x)\<rparr>"
  have mv: "nc_wmove win y x t = (OK, t(win \<mapsto> ?W))"
    using assms x by (simp add: nc_wmove_def)
  have "cell_at (snd (nc_waddstr win str (t(win \<mapsto> ?W)))) win (w_cury ?W) (w_curx ?W + i)
      = Some (of_char (str ! i))"
    using nc_waddstr_cells [of "t(win \<mapsto> ?W)" win ?W str i] assms by simp
  with mv show ?thesis
    by (simp add: nc_mvwaddstr_def OK_def ERR_def)
qed

subsection \<open>The character write\<close>

lemma attr_values_more: "A_ALTCHARSET = 0x400000" "A_COLOR = 0xFF00"
  by (simp_all add: attr_defs_more)

lemma render_char_normal: "render_char A_NORMAL ch = ch"
  by (simp add: render_char_def A_NORMAL_def)

lemma nc_waddch_nosync_printable:
  "32 \<le> unat (ch AND A_CHARTEXT) \<Longrightarrow> unat (ch AND A_CHARTEXT) \<le> 126 \<Longrightarrow>
   nc_waddch_nosync a win ch t = nc_waddch win (render_char a ch) t"
  by (simp add: nc_waddch_nosync_def Let_def)

lemma nc_mvwaddch_attr_printable:
  assumes "t win = Some W" and "0 \<le> sint y" and "sint y < int (w_lines W)"
    and "0 \<le> sint x" and "sint x < int (w_cols W)"
    and "32 \<le> unat (ch AND A_CHARTEXT)" and "unat (ch AND A_CHARTEXT) \<le> 126"
  shows "nc_mvwaddch_attr a win y x ch t =
    nc_waddch win (render_char a ch)
      (t(win \<mapsto> W\<lparr>w_cury := nat (sint y), w_curx := nat (sint x)\<rparr>))"
  using assms
  by (simp add: nc_mvwaddch_attr_def nc_wmove_def nc_waddch_nosync_printable OK_def ERR_def)

lemma nc_mvwaddch_attr_cell:
  assumes "t win = Some W" and "0 \<le> sint y" and "sint y < int (w_lines W)"
    and "0 \<le> sint x" and "sint x < int (w_cols W)"
    and "32 \<le> unat (ch AND A_CHARTEXT)" and "unat (ch AND A_CHARTEXT) \<le> 126"
  shows "cell_at (snd (nc_mvwaddch_attr a win y x ch t)) win (nat (sint y)) (nat (sint x))
    = Some (render_char a ch)"
  using assms nc_mvwaddch_attr_printable [of t win W y x ch a]
  by (simp add: nc_waddch_def Let_def cell_at_def)




subsection \<open>Flags or-ed into a character\<close>






subsection \<open>The bridge on a console\<close>

lemma io_mvwaddch_frame:
  "attrs (snd (io_mvwaddch win y x ch k)) = attrs k
 \<and> pending (snd (io_mvwaddch win y x ch k)) = pending k"
  by (simp add: io_mvwaddch_def split: prod.split)

lemma io_mvwaddch_windows:
  "fst (io_mvwaddch win y x ch k) = fst (nc_mvwaddch_attr (attrs k win) win y x ch (windows k))
 \<and> windows (snd (io_mvwaddch win y x ch k))
      = snd (nc_mvwaddch_attr (attrs k win) win y x ch (windows k))"
  by (simp add: io_mvwaddch_def split: prod.split)

lemma io_mvwprintw_frame:
  "attrs (snd (io_mvwprintw win y x fmt args k)) = attrs k
 \<and> pending (snd (io_mvwprintw win y x fmt args k)) = pending k"
  by (simp add: io_mvwprintw_def split: prod.split option.split)

lemma bridge_exec_io_frame:
  assumes "bridge_exec ncurses_io c s = Some (r, s')"
  shows "attrs (screen s') = attrs (screen s) \<and> pending (screen s') = pending (screen s)"
  using assms
  by (cases c)
    (auto simp: bridge_getmaxyx_eq bridge_mvwaddch_def bridge_mvwprintw_def
      call_mvwaddch_eq call_mvwprintw_eq ncurses_io_def io_mvwaddch_frame io_mvwprintw_frame
      split: if_splits)

lemma io_move:
  assumes "windows k win = Some W" and "0 \<le> sint y" and "sint y < int (w_lines W)"
    and "0 \<le> sint x" and "sint x < int (w_cols W)"
  shows "io_mvwprintw win y x ''%s'' [ArgStr []] k =
    (OK, k\<lparr>windows := (windows k)(win \<mapsto> W\<lparr>w_cury := nat (sint y), w_curx := nat (sint x)\<rparr>)\<rparr>)"
  using assms by (simp add: io_mvwprintw_def nc_wmove_def OK_def ERR_def)

lemma io_cell:
  assumes "windows k win = Some W" and "0 \<le> sint y" and "sint y < int (w_lines W)"
    and "0 \<le> sint x" and "sint x < int (w_cols W)"
    and "32 \<le> unat (ch AND A_CHARTEXT)" and "unat (ch AND A_CHARTEXT) \<le> 126"
  shows "cell_at (windows (snd (io_mvwaddch win y x ch k))) win (nat (sint y)) (nat (sint x))
    = Some (render_char (attrs k win) ch)"
  using assms nc_mvwaddch_attr_cell [of "windows k" win W y x ch "attrs k win"]
  by (simp add: io_mvwaddch_windows)

section \<open>The claims\<close>

text \<open>
  C1, as amended. Each wrapper has the result and effect of its library calls on the same
  arguments and nothing else: \<open>bridge_mvwaddch win y x ch\<close> is one call
  \<open>mvwaddch win y x ch\<close>; \<open>bridge_mvwprintw win y x str\<close> is one call of
  \<open>mvwprintw\<close> with the fixed format \<^verbatim>\<open>"%s"\<close> and \<open>str\<close> as its only variadic argument
  (not \<open>mvwprintw win y x str\<close>); \<open>bridge_getmaxyx win y x\<close> reads \<open>getmaxy win\<close> and
  \<open>getmaxx win\<close> and stores them through \<open>y\<close>, then \<open>x\<close>. This holds for every
  library.
\<close>

theorem bridge_forwards:
  "bridge_mvwaddch L win y x ch s =
     (fst (mvwaddch L win y x ch (screen s)),
      s\<lparr>screen := snd (mvwaddch L win y x ch (screen s)),
        calls := calls s @ [Mvwaddch win y x ch]\<rparr>)
 \<and> bridge_mvwprintw L win y x str s =
     (fst (mvwprintw L win y x ''%s'' [ArgStr str] (screen s)),
      s\<lparr>screen := snd (mvwprintw L win y x ''%s'' [ArgStr str] (screen s)),
        calls := calls s @ [Mvwprintw win y x ''%s'' [ArgStr str]]\<rparr>)
 \<and> bridge_getmaxyx L win py px s =
     (if py = NULL \<or> px = NULL then None
      else Some (s\<lparr>mem := (mem s)(py := getmaxy L win (screen s), px := getmaxx L win (screen s)),
                  calls := calls s @ [Getmaxy win, Getmaxx win]\<rparr>))"
  by (simp add: bridge_mvwaddch_def bridge_mvwprintw_def call_mvwaddch_eq call_mvwprintw_eq
      bridge_getmaxyx_eq)

text \<open>
  C1 as stated fails: \<open>bridge_mvwprintw win y x str\<close> is not \<open>mvwprintw win y x str\<close>.
  For \<open>str\<close> = \<^verbatim>\<open>"%%"\<close> at the origin of the 24 by 80 window, the bridge writes both percent
  signs, so the cell in column 1 holds one; the library call with \<open>str\<close> as the format
  writes a single percent sign and leaves that cell blank.
\<close>

theorem bridge_mvwprintw_format_counterexample:
  "cell_at (screen (snd (bridge_mvwprintw ncurses 1 0 0 ''%%'' state0))) 1 0 1 = Some 37
 \<and> cell_at (screen (snd (call_mvwprintw ncurses 1 0 0 ''%%'' [] state0))) 1 0 1 = Some 32"
  by (simp add: bridge_mvwprintw_def call_defs nc_defs st0_defs cell_at_def OK_def ERR_def Let_def)

text \<open>
  C2. For every string \<open>str\<close>, whatever bytes it holds: the format the bridge passes is
  always \<^verbatim>\<open>"%s"\<close> and \<open>str\<close> is its argument (for every library); expanding that format
  gives \<open>str\<close> itself; in the reference library the status and the terminal after
  \<open>bridge_mvwprintw\<close> are those of the plain string write of \<open>str\<close> at the position;
  and when \<open>str\<close> fits on the line, the cells from \<open>(y, x)\<close> on hold the bytes of
  \<open>str\<close>, one by one.
\<close>

theorem bridge_mvwprintw_verbatim:
  "format_printf ''%s'' [ArgStr str] = Some str
 \<and> emitted L (Bridge_mvwprintw win y x str) s = [Mvwprintw win y x ''%s'' [ArgStr str]]
 \<and> fst (bridge_mvwprintw ncurses win y x str s0) = fst (nc_mvwaddstr win y x str (screen s0))
 \<and> screen (snd (bridge_mvwprintw ncurses win y x str s0)) = snd (nc_mvwaddstr win y x str (screen s0))
 \<and> (screen s0 win = Some W \<and> 0 \<le> sint y \<and> sint y < int (w_lines W) \<and> 0 \<le> sint x
      \<and> nat (sint x) + length str \<le> w_cols W \<and> i < length str \<longrightarrow>
     cell_at (screen (snd (bridge_mvwprintw ncurses win y x str s0))) win
       (nat (sint y)) (nat (sint x) + i) = Some (of_char (str ! i)))"
  by (simp add: emitted_mvwprintw bridge_mvwprintw_def call_mvwprintw_eq ncurses_def
      nc_mvwprintw_s nc_mvwaddstr_cells)

text \<open>
  The string \<^verbatim>\<open>"%d%%"\<close> written at line 2, column 3 of the 24 by 80 window: the write
  succeeds and the four cells hold \<^verbatim>\<open>%\<close>, \<^verbatim>\<open>d\<close>, \<^verbatim>\<open>%\<close>, \<^verbatim>\<open>%\<close>.
\<close>

theorem bridge_mvwprintw_verbatim_witness:
  "format_printf ''%s'' [ArgStr ''%d%%''] = Some ''%d%%''
 \<and> fst (bridge_mvwprintw ncurses 1 2 3 ''%d%%'' state0) = OK
 \<and> cell_at (screen (snd (bridge_mvwprintw ncurses 1 2 3 ''%d%%'' state0))) 1 2 3 = Some 37
 \<and> cell_at (screen (snd (bridge_mvwprintw ncurses 1 2 3 ''%d%%'' state0))) 1 2 4 = Some 100
 \<and> cell_at (screen (snd (bridge_mvwprintw ncurses 1 2 3 ''%d%%'' state0))) 1 2 5 = Some 37
 \<and> cell_at (screen (snd (bridge_mvwprintw ncurses 1 2 3 ''%d%%'' state0))) 1 2 6 = Some 37"
proof -
  have w: "screen state0 1 = Some window0" "(0::int) \<le> sint (2 :: c_int)"
      "sint (2 :: c_int) < int (w_lines window0)" "(0::int) \<le> sint (3 :: c_int)"
      "nat (sint (3 :: c_int)) + length ''%d%%'' \<le> w_cols window0"
    by (simp_all add: st0_defs)
  have ok: "fst (nc_mvwaddstr 1 2 3 ''%d%%'' (screen state0)) = OK"
    by (simp add: nc_defs st0_defs OK_def ERR_def Let_def)
  note v = bridge_mvwprintw_verbatim [of "''%d%%''" ncurses 1 2 3 state0 state0 window0]
  note cell = v [THEN conjunct2, THEN conjunct2, THEN conjunct2, THEN conjunct2]
  have f: "format_printf ''%s'' [ArgStr ''%d%%''] = Some ''%d%%''"
    using v [of 0] by simp
  have r: "fst (bridge_mvwprintw ncurses 1 2 3 ''%d%%'' state0) = OK"
    using v [of 0, THEN conjunct2, THEN conjunct2, THEN conjunct1] ok by simp
  have c0: "cell_at (screen (snd (bridge_mvwprintw ncurses 1 2 3 ''%d%%'' state0))) 1 2 3 = Some 37"
    using cell [of 0] w by simp
  have c1: "cell_at (screen (snd (bridge_mvwprintw ncurses 1 2 3 ''%d%%'' state0))) 1 2 4 = Some 100"
    using cell [of 1] w by simp
  have c2: "cell_at (screen (snd (bridge_mvwprintw ncurses 1 2 3 ''%d%%'' state0))) 1 2 5 = Some 37"
    using cell [of 2] w by simp
  have c3: "cell_at (screen (snd (bridge_mvwprintw ncurses 1 2 3 ''%d%%'' state0))) 1 2 6 = Some 37"
    using cell [of 3] w by simp
  from f r c0 c1 c2 c3 show ?thesis
    by (intro conjI)
qed

text \<open>
  C3, as amended. The bridge provides three of the five capabilities, on the reference
  console: \<open>bridge_getmaxyx\<close> queries the window size (the numbers of lines and of
  columns arrive in \<open>*y\<close> and \<open>*x\<close>); \<open>bridge_mvwprintw\<close> with the empty string moves
  the cursor to a position inside the window and writes nothing; \<open>bridge_mvwaddch\<close>
  writes a printable character at a position inside the window. It provides no operation
  that sets or clears an attribute flag and none that reads a key: no call of any of its
  nine functions changes the current attributes of a window or takes a key from the
  pending input.
\<close>

theorem bridge_capabilities:
  "(py \<noteq> NULL \<and> px \<noteq> NULL \<and> py \<noteq> px \<and> windows (screen s) win = Some W \<longrightarrow>
      (\<exists>s1. bridge_getmaxyx ncurses_io win py px s = Some s1
         \<and> mem s1 py = of_nat (w_lines W) \<and> mem s1 px = of_nat (w_cols W)))
 \<and> (windows (screen s) win = Some W \<and> 0 \<le> sint y \<and> sint y < int (w_lines W)
      \<and> 0 \<le> sint x \<and> sint x < int (w_cols W) \<longrightarrow>
      fst (bridge_mvwprintw ncurses_io win y x [] s) = OK
    \<and> windows (screen (snd (bridge_mvwprintw ncurses_io win y x [] s)))
        = (windows (screen s))(win \<mapsto> W\<lparr>w_cury := nat (sint y), w_curx := nat (sint x)\<rparr>))
 \<and> (windows (screen s) win = Some W \<and> 0 \<le> sint y \<and> sint y < int (w_lines W)
      \<and> 0 \<le> sint x \<and> sint x < int (w_cols W)
      \<and> 32 \<le> unat (ch AND A_CHARTEXT) \<and> unat (ch AND A_CHARTEXT) \<le> 126 \<longrightarrow>
      cell_at (windows (screen (snd (bridge_mvwaddch ncurses_io win y x ch s)))) win
        (nat (sint y)) (nat (sint x)) = Some (render_char (attrs (screen s) win) ch))
 \<and> (bridge_exec ncurses_io c s = Some (r, s') \<longrightarrow>
      attrs (screen s') = attrs (screen s) \<and> pending (screen s') = pending (screen s))"
proof (intro conjI impI)
  assume "py \<noteq> NULL \<and> px \<noteq> NULL \<and> py \<noteq> px \<and> windows (screen s) win = Some W"
  then show "\<exists>s1. bridge_getmaxyx ncurses_io win py px s = Some s1
      \<and> mem s1 py = of_nat (w_lines W) \<and> mem s1 px = of_nat (w_cols W)"
    by (simp add: bridge_getmaxyx_eq ncurses_io_def io_getmaxy_def io_getmaxx_def
        nc_getmaxy_def nc_getmaxx_def)
next
  assume a: "windows (screen s) win = Some W \<and> 0 \<le> sint y \<and> sint y < int (w_lines W)
      \<and> 0 \<le> sint x \<and> sint x < int (w_cols W)"
  then have m: "io_mvwprintw win y x ''%s'' [ArgStr []] (screen s) =
      (OK, (screen s)\<lparr>windows :=
         (windows (screen s))(win \<mapsto> W\<lparr>w_cury := nat (sint y), w_curx := nat (sint x)\<rparr>)\<rparr>)"
    using io_move [of "screen s" win W y x] by simp
  show "fst (bridge_mvwprintw ncurses_io win y x [] s) = OK"
    by (simp add: bridge_mvwprintw_def call_mvwprintw_eq ncurses_io_def m)
  show "windows (screen (snd (bridge_mvwprintw ncurses_io win y x [] s)))
      = (windows (screen s))(win \<mapsto> W\<lparr>w_cury := nat (sint y), w_curx := nat (sint x)\<rparr>)"
    by (simp add: bridge_mvwprintw_def call_mvwprintw_eq ncurses_io_def m)
next
  assume "windows (screen s) win = Some W \<and> 0 \<le> sint y \<and> sint y < int (w_lines W)
      \<and> 0 \<le> sint x \<and> sint x < int (w_cols W)
      \<and> 32 \<le> unat (ch AND A_CHARTEXT) \<and> unat (ch AND A_CHARTEXT) \<le> 126"
  then show "cell_at (windows (screen (snd (bridge_mvwaddch ncurses_io win y x ch s)))) win
      (nat (sint y)) (nat (sint x)) = Some (render_char (attrs (screen s) win) ch)"
    using io_cell [of "screen s" win W y x ch]
    by (simp add: bridge_mvwaddch_def call_mvwaddch_eq ncurses_io_def)
next
  assume "bridge_exec ncurses_io c s = Some (r, s')"
  then show "attrs (screen s') = attrs (screen s)" and "pending (screen s') = pending (screen s)"
    using bridge_exec_io_frame by blast+
qed

text \<open>
  On the console with the 24 by 80 window and the key 97 pending: the size query gives 24
  and 80; the empty string written at line 7, column 9 puts the cursor there; \<^verbatim>\<open>X\<close>
  written at line 0, column 1 is in that cell; after that write the key is still pending
  and no attribute is switched on, whereas the key read of the library takes the key and
  its attribute switch turns bold on.
\<close>

theorem bridge_capabilities_witness:
  "(\<exists>s1. bridge_getmaxyx ncurses_io 1 5 6 iostate0 = Some s1 \<and> mem s1 5 = 24 \<and> mem s1 6 = 80)
 \<and> fst (bridge_mvwprintw ncurses_io 1 7 9 [] iostate0) = OK
 \<and> map_option (\<lambda>W. (w_cury W, w_curx W))
      (windows (screen (snd (bridge_mvwprintw ncurses_io 1 7 9 [] iostate0))) 1) = Some (7, 9)
 \<and> cell_at (windows (screen (snd (bridge_mvwaddch ncurses_io 1 0 1 88 iostate0)))) 1 0 1
      = Some 88
 \<and> pending (screen (snd (bridge_mvwaddch ncurses_io 1 0 1 88 iostate0))) = [97]
 \<and> attrs (screen (snd (bridge_mvwaddch ncurses_io 1 0 1 88 iostate0))) 1 = A_NORMAL
 \<and> io_wgetch 1 console0 = (97, console0\<lparr>pending := []\<rparr>)
 \<and> attrs (snd (io_wattron 1 bridge_a_bold console0)) 1 = A_BOLD"
proof -
  note st = iostate0_def console0_def terminal0_def window0_def
  note t = bridge_capabilities [where s = iostate0 and win = 1 and W = window0]
  have w: "windows (screen iostate0) 1 = Some window0" "w_lines window0 = 24"
      "w_cols window0 = 80"
    by (simp_all add: st)
  have size: "\<exists>s1. bridge_getmaxyx ncurses_io 1 5 6 iostate0 = Some s1
      \<and> mem s1 5 = 24 \<and> mem s1 6 = 80"
    using t [where py = 5 and px = 6, THEN conjunct1] w by (simp add: NULL_def)
  have move: "fst (bridge_mvwprintw ncurses_io 1 7 9 [] iostate0) = OK
      \<and> windows (screen (snd (bridge_mvwprintw ncurses_io 1 7 9 [] iostate0)))
          = (windows (screen iostate0))(1 \<mapsto> window0\<lparr>w_cury := 7, w_curx := 9\<rparr>)"
    using t [where y = 7 and x = 9, THEN conjunct2, THEN conjunct1] w by simp
  have x: "unat ((88 :: chtype) AND A_CHARTEXT) = 88"
    by (simp add: A_CHARTEXT_mask mask_numeral)
  have cell: "cell_at (windows (screen (snd (bridge_mvwaddch ncurses_io 1 0 1 88 iostate0)))) 1 0 1
      = Some (render_char (attrs (screen iostate0) 1) 88)"
    using t [where y = 0 and x = 1 and ch = 88, THEN conjunct2, THEN conjunct2, THEN conjunct1]
      w x
    by simp
  have r: "render_char (attrs (screen iostate0) 1) 88 = 88"
    by (simp add: st render_char_normal)
  have ex: "bridge_exec ncurses_io (Bridge_mvwaddch 1 0 1 88) iostate0
      = Some (Some (fst (bridge_mvwaddch ncurses_io 1 0 1 88 iostate0)),
              snd (bridge_mvwaddch ncurses_io 1 0 1 88 iostate0))"
    by (simp split: prod.split)
  have frame: "attrs (screen (snd (bridge_mvwaddch ncurses_io 1 0 1 88 iostate0)))
        = attrs (screen iostate0)
      \<and> pending (screen (snd (bridge_mvwaddch ncurses_io 1 0 1 88 iostate0)))
        = pending (screen iostate0)"
    using t [where c = "Bridge_mvwaddch 1 0 1 88"
        and r = "Some (fst (bridge_mvwaddch ncurses_io 1 0 1 88 iostate0))"
        and s' = "snd (bridge_mvwaddch ncurses_io 1 0 1 88 iostate0)",
        THEN conjunct2, THEN conjunct2, THEN conjunct2] ex
    by simp
  have lib: "io_wgetch 1 console0 = (97, console0\<lparr>pending := []\<rparr>)"
      "attrs (snd (io_wattron 1 bridge_a_bold console0)) 1 = A_BOLD"
    by (simp_all add: io_wgetch_def io_wattron_def st bridge_a_defs attr_values
        attr_values_more)
  from size move cell r frame lib show ?thesis
    by (simp add: st)
qed

text \<open>
  C3 as stated fails: the bridge does not provide every capability of the set. No call
  of a bridge function, in any state of the console, switches an attribute of a window
  or takes a key from the pending input, although the console has both: the key read of
  the library takes the pending key 97.
\<close>

theorem bridge_capabilities_counterexample:
  "\<not> (\<exists>c s r s'. bridge_exec ncurses_io c s = Some (r, s')
        \<and> pending (screen s') \<noteq> pending (screen s))
 \<and> \<not> (\<exists>c s r s'. bridge_exec ncurses_io c s = Some (r, s')
        \<and> attrs (screen s') \<noteq> attrs (screen s))
 \<and> pending (snd (io_wgetch 1 console0)) \<noteq> pending console0"
proof -
  have "pending (snd (io_wgetch 1 console0)) \<noteq> pending console0"
    by (simp add: io_wgetch_def console0_def)
  then show ?thesis
    using bridge_exec_io_frame by blast
qed

text \<open>
  C4, as amended. For every window and \<^emph>\<open>distinct\<close> non-null output pointers,
  \<open>bridge_getmaxyx win y x\<close> returns with \<open>getmaxy win\<close> in \<open>*y\<close> and \<open>getmaxx win\<close>
  in \<open>*x\<close>: the size query returns both dimensions. This holds for every library.
\<close>

theorem bridge_getmaxyx_stores:
  "y \<noteq> NULL \<Longrightarrow> x \<noteq> NULL \<Longrightarrow> y \<noteq> x \<Longrightarrow>
   \<exists>s'. bridge_getmaxyx L win y x s = Some s'
     \<and> mem s' y = getmaxy L win (screen s) \<and> mem s' x = getmaxx L win (screen s)"
  by (simp add: bridge_getmaxyx_eq)

text \<open>The 24 by 80 window queried into the cells 5 and 6: the cells hold 24 and 80.\<close>

theorem bridge_getmaxyx_stores_witness:
  "\<exists>s'. bridge_getmaxyx ncurses 1 5 6 state0 = Some s' \<and> mem s' 5 = 24 \<and> mem s' 6 = 80"
  using bridge_getmaxyx_stores [of 5 6 ncurses 1 state0]
  by (simp add: NULL_def nc_defs st0_defs)

text \<open>
  C4 as stated fails for non-null pointers that are equal: the second store overwrites
  the first. The 24 by 80 window queried with both pointers at cell 5: the call returns,
  and \<open>*y\<close> holds the width 80, not the height \<open>getmaxy win\<close> = 24.
\<close>

theorem bridge_getmaxyx_aliased_counterexample:
  "bridge_getmaxyx ncurses 1 5 5 state0 \<noteq> None
 \<and> mem (the (bridge_getmaxyx ncurses 1 5 5 state0)) 5 = 80
 \<and> getmaxy ncurses 1 (screen state0) = 24"
  by (simp add: bridge_getmaxyx_eq NULL_def nc_defs st0_defs)

text \<open>
  C5. Each of the six attribute functions returns exactly the value of its macro: the
  \<^verbatim>\<open>int\<close> returned, read as a signed number, equals the \<^verbatim>\<open>chtype\<close> constant, read as
  an unsigned one.
\<close>

theorem bridge_attributes_equal_macros:
  "sint bridge_a_bold = uint A_BOLD \<and> sint bridge_a_normal = uint A_NORMAL
 \<and> sint bridge_a_dim = uint A_DIM \<and> sint bridge_a_reverse = uint A_REVERSE
 \<and> sint bridge_a_standout = uint A_STANDOUT \<and> sint bridge_a_underline = uint A_UNDERLINE"
  by (simp add: bridge_a_defs attr_values)




text \<open>
  C7. For every library and every input, each of the two write functions makes exactly
  one library call, and its status and the terminal afterwards are those of that one
  call, whether it succeeded or failed: nothing is retried.
\<close>

theorem bridge_writes_call_once:
  "fst (bridge_mvwaddch L win y x ch s) = fst (mvwaddch L win y x ch (screen s))
 \<and> screen (snd (bridge_mvwaddch L win y x ch s)) = snd (mvwaddch L win y x ch (screen s))
 \<and> emitted L (Bridge_mvwaddch win y x ch) s = [Mvwaddch win y x ch]
 \<and> fst (bridge_mvwprintw L win y x str s)
      = fst (mvwprintw L win y x ''%s'' [ArgStr str] (screen s))
 \<and> screen (snd (bridge_mvwprintw L win y x str s))
      = snd (mvwprintw L win y x ''%s'' [ArgStr str] (screen s))
 \<and> emitted L (Bridge_mvwprintw win y x str) s = [Mvwprintw win y x ''%s'' [ArgStr str]]"
  by (simp add: emitted_def bridge_mvwaddch_def bridge_mvwprintw_def call_mvwaddch_eq
      call_mvwprintw_eq)

text \<open>
  C8. Each attribute function is a constant: called in any state with any library it
  returns the same value and changes nothing. \<open>bridge_a_normal\<close> is 0; the other five
  values are nonzero, pairwise distinct and pairwise disjoint as bit sets.
\<close>

theorem bridge_attribute_constants:
  "bridge_exec L Bridge_a_bold s = Some (Some bridge_a_bold, s)
 \<and> bridge_exec L Bridge_a_normal s = Some (Some bridge_a_normal, s)
 \<and> bridge_exec L Bridge_a_dim s = Some (Some bridge_a_dim, s)
 \<and> bridge_exec L Bridge_a_reverse s = Some (Some bridge_a_reverse, s)
 \<and> bridge_exec L Bridge_a_standout s = Some (Some bridge_a_standout, s)
 \<and> bridge_exec L Bridge_a_underline s = Some (Some bridge_a_underline, s)
 \<and> bridge_a_normal = 0
 \<and> bridge_a_bold \<noteq> 0 \<and> bridge_a_dim \<noteq> 0 \<and> bridge_a_reverse \<noteq> 0
 \<and> bridge_a_standout \<noteq> 0 \<and> bridge_a_underline \<noteq> 0
 \<and> distinct [bridge_a_bold, bridge_a_dim, bridge_a_reverse, bridge_a_standout,
      bridge_a_underline]
 \<and> bridge_a_bold AND bridge_a_dim = 0 \<and> bridge_a_bold AND bridge_a_reverse = 0
 \<and> bridge_a_bold AND bridge_a_standout = 0 \<and> bridge_a_bold AND bridge_a_underline = 0
 \<and> bridge_a_dim AND bridge_a_reverse = 0 \<and> bridge_a_dim AND bridge_a_standout = 0
 \<and> bridge_a_dim AND bridge_a_underline = 0 \<and> bridge_a_reverse AND bridge_a_standout = 0
 \<and> bridge_a_reverse AND bridge_a_underline = 0
 \<and> bridge_a_standout AND bridge_a_underline = 0"
  by (simp add: bridge_a_defs attr_values)

text \<open>
  C9. For every library, every window and distinct non-null pointers \<open>y\<close> and \<open>x\<close>,
  \<open>bridge_getmaxyx\<close> returns, leaves the terminal state (windows, cursors, cells) as it
  was, and changes no \<^verbatim>\<open>int\<close> object other than \<open>*y\<close> and \<open>*x\<close>.
\<close>

theorem bridge_getmaxyx_frame:
  "y \<noteq> NULL \<Longrightarrow> x \<noteq> NULL \<Longrightarrow> y \<noteq> x \<Longrightarrow>
   \<exists>s'. bridge_getmaxyx L win y x s = Some s' \<and> screen s' = screen s
     \<and> (\<forall>a. a \<noteq> y \<and> a \<noteq> x \<longrightarrow> mem s' a = mem s a)"
  by (simp add: bridge_getmaxyx_eq)

text \<open>
  The 24 by 80 window queried into the cells 5 and 6: the terminal is unchanged and cell
  7 still holds 0.
\<close>

theorem bridge_getmaxyx_frame_witness:
  "\<exists>s'. bridge_getmaxyx ncurses 1 5 6 state0 = Some s' \<and> screen s' = terminal0 \<and> mem s' 7 = 0"
  using bridge_getmaxyx_frame [of 5 6 ncurses 1 state0]
  by (auto simp add: NULL_def st0_defs)




end
